theory Spec2Isabelle
  imports Complex_Main "HOL-Library.Sublist"
begin

section \<open>AkariNet Audio Console 3.3: JavaScript strings\<close>

text \<open>
  A JavaScript string is a sequence of UTF-16 code units; \<open>length\<close>, \<open>indexOf\<close>,
  \<open>substring\<close> and the regular expressions of the source (which have no \<open>u\<close> flag) count
  and match code units. A code unit is a number below 65536. \<open>lit\<close> gives the string of a
  literal of the source, whose characters are ASCII.
\<close>

type_synonym codeUnit = nat

type_synonym jsString = "codeUnit list"

definition lit :: "string \<Rightarrow> jsString" where
  "lit s = map of_char s"

section \<open>The configuration\<close>

text \<open>
  The engine is the class \<open>AkarinetVoice\<close> of \<open>audioConsole-3.3.0.js\<close>. Numbers of the
  program that are only compared (scores, thresholds, the delay) are reals: every finite
  double is a real and the comparisons of the program are exact. Timestamps are the
  integers \<open>Date.now()\<close> returns. An option the caller left out (\<open>undefined\<close>) is \<open>None\<close>.
\<close>

record options =
  opt_modelId :: "jsString option"
  opt_modelQuantization :: "jsString option"
  opt_wakewords :: "jsString list option"
  opt_wakeword :: "jsString option"
  opt_wakesoundURL :: "jsString option"
  opt_wakesoundThreshold :: "real option"
  opt_wakesoundIndex :: "int option"
  opt_wakesoundDuration :: "real option"
  opt_wakesoundDelay :: "real option"
  opt_vadThreshold :: "real option"
  opt_cleanup :: "bool option"
  opt_debugWakeSound :: "bool option"
  opt_requireWakeSound :: "bool option"

record config =
  modelId :: jsString
  modelQuantization :: jsString
  wakewords :: "jsString list"
  wakesoundURL :: "jsString option"
  wakesoundThreshold :: real
  wakesoundIndex :: int
  wakesoundDuration :: real
  wakesoundDelay :: real
  vadThreshold :: real
  cleanup :: bool
  debugWakeSound :: bool
  requireWakeSound :: bool

text \<open>
  JavaScript's \<open>x || d\<close>: the default \<open>d\<close> replaces every falsy \<open>x\<close>, which for a number
  is \<open>undefined\<close> and \<open>0\<close>, for a string \<open>undefined\<close> and the empty string, for a
  boolean \<open>undefined\<close> and \<open>false\<close>.
\<close>

definition orNum :: "'a::zero option \<Rightarrow> 'a \<Rightarrow> 'a" where
  "orNum x d = (case x of None \<Rightarrow> d | Some v \<Rightarrow> if v = 0 then d else v)"

definition orStr :: "jsString option \<Rightarrow> jsString \<Rightarrow> jsString" where
  "orStr x d = (case x of None \<Rightarrow> d | Some v \<Rightarrow> if v = [] then d else v)"

definition orBool :: "bool option \<Rightarrow> bool \<Rightarrow> bool" where
  "orBool x d = (case x of None \<Rightarrow> d | Some v \<Rightarrow> if v then v else d)"

text \<open>The constructor, lines 12 to 25. An array is truthy even when it is empty.\<close>

definition constructor :: "options \<Rightarrow> config" where
  "constructor c =
     \<lparr> modelId = orStr (opt_modelId c) (lit ''onnx-community/moonshine-tiny-ONNX''),
       modelQuantization = orStr (opt_modelQuantization c) (lit ''q8''),
       wakewords =
         (case opt_wakewords c of
            Some ws \<Rightarrow> ws
          | None \<Rightarrow>
              (case opt_wakeword c of
                 None \<Rightarrow> []
               | Some w \<Rightarrow> if w = [] then [] else [w])),
       wakesoundURL =
         (case opt_wakesoundURL c of
            None \<Rightarrow> None
          | Some u \<Rightarrow> if u = [] then None else Some u),
       wakesoundThreshold = orNum (opt_wakesoundThreshold c) 0.75,
       wakesoundIndex = orNum (opt_wakesoundIndex c) 2,
       wakesoundDuration = orNum (opt_wakesoundDuration c) 1000,
       wakesoundDelay = orNum (opt_wakesoundDelay c) 0,
       vadThreshold = orNum (opt_vadThreshold c) 0.75,
       cleanup = (case opt_cleanup c of None \<Rightarrow> True | Some b \<Rightarrow> b),
       debugWakeSound = orBool (opt_debugWakeSound c) False,
       requireWakeSound = orBool (opt_requireWakeSound c) False \<rparr>"

section \<open>The engine's state and its events\<close>

text \<open>
  The fields of the object that the callbacks share: \<open>wakeSoundDetectedTime\<close> is
  \<open>null\<close> (\<open>None\<close>) or a timestamp, \<open>speechStartTime\<close> starts at 0.
\<close>

record engine =
  wakeSoundDetectedTime :: "int option"
  lastWakeSoundScore :: real
  speechStartTime :: int

definition initial :: engine where
  "initial = \<lparr> wakeSoundDetectedTime = None, lastWakeSoundScore = 0, speechStartTime = 0 \<rparr>"

text \<open>
  The events the engine dispatches, with their \<open>detail\<close>. The class label of a
  \<open>wakesound\<close> event is \<open>classLabels[wakesoundIndex]\<close>, \<open>undefined\<close> (\<open>None\<close>) out of range.
\<close>

datatype event =
    SpeechStart
  | SpeechEnd
  | WakeSound real "jsString option" int
  | Result jsString jsString bool
  | SpeechDiscarded jsString
  | Error jsString

text \<open>An array read \<open>xs[i]\<close>: \<open>undefined\<close> when \<open>i\<close> is not an index of \<open>xs\<close>.\<close>

definition arrayAt :: "'a list \<Rightarrow> int \<Rightarrow> 'a option" where
  "arrayAt xs i = (if 0 \<le> i \<and> i < int (length xs) then Some (xs ! nat i) else None)"

text \<open>A timestamp field used as a condition: \<open>null\<close> and \<open>0\<close> are falsy.\<close>

definition truthy :: "int option \<Rightarrow> bool" where
  "truthy t = (case t of None \<Rightarrow> False | Some v \<Rightarrow> v \<noteq> 0)"

section \<open>The wake-sound listener\<close>

text \<open>
  The callback given to \<open>recognizer.listen\<close>, lines 151 to 175, run at time \<open>now\<close> on the
  scores of one classification. A comparison with \<open>undefined\<close> is false. The debug log
  lines write to the console only and are left out. The literal \<open>1.62\<close> of the source is
  the double nearest to 1.62, which lies above it with no double in between: a double is
  below the literal exactly when it is below 1.62.
\<close>

definition onWakeSoundResult ::
  "config \<Rightarrow> jsString list \<Rightarrow> int \<Rightarrow> real list \<Rightarrow> engine \<Rightarrow> engine \<times> event list" where
  "onWakeSoundResult cfg classLabels now scores st =
     (case arrayAt scores (wakesoundIndex cfg) of
        None \<Rightarrow> (st, [])
      | Some targetScore \<Rightarrow>
          if wakesoundThreshold cfg < targetScore \<and> targetScore < 1.62
          then (st\<lparr> wakeSoundDetectedTime := Some now, lastWakeSoundScore := targetScore \<rparr>,
                [WakeSound targetScore (arrayAt classLabels (wakesoundIndex cfg)) now])
          else (st, []))"

text \<open>The VAD's \<open>onSpeechStart\<close>, lines 69 to 72.\<close>

definition onSpeechStart :: "int \<Rightarrow> engine \<Rightarrow> engine \<times> event list" where
  "onSpeechStart now st = (st\<lparr> speechStartTime := now \<rparr>, [SpeechStart])"

section \<open>The string functions of the platform\<close>

text \<open>
  \<open>String.prototype.toLowerCase\<close> and \<open>toUpperCase\<close> are functions of the JavaScript
  engine, defined by the Unicode case mappings; they can change the length of a string.
  They are not part of the repository, so the engine's code is modelled over any pair of
  such functions.
\<close>

record platform =
  toLowerCase :: "jsString \<Rightarrow> jsString"
  toUpperCase :: "jsString \<Rightarrow> jsString"

text \<open>
  The class \<open>\s\<close> of a regular expression, which is also what \<open>trim\<close> removes: the white
  space and the line terminators of ECMAScript. These are tab, LF, VT, FF, CR, space,
  U+00A0, U+1680, U+2000 to U+200A, U+2028, U+2029, U+202F, U+205F, U+3000 and U+FEFF.
\<close>

definition isSpace :: "codeUnit \<Rightarrow> bool" where
  "isSpace c =
     ((9 \<le> c \<and> c \<le> 13) \<or> c = 32 \<or> c = 160 \<or> c = 5760 \<or> (8192 \<le> c \<and> c \<le> 8202)
      \<or> c = 8232 \<or> c = 8233 \<or> c = 8239 \<or> c = 8287 \<or> c = 12288 \<or> c = 65279)"

text \<open>
  The class \<open>\w\<close> without the flags \<open>u\<close> and \<open>i\<close>: the ASCII letters and digits and
  the underscore.
\<close>

definition isUpper :: "codeUnit \<Rightarrow> bool" where
  "isUpper c = (65 \<le> c \<and> c \<le> 90)"

definition isLower :: "codeUnit \<Rightarrow> bool" where
  "isLower c = (97 \<le> c \<and> c \<le> 122)"

definition isDigit :: "codeUnit \<Rightarrow> bool" where
  "isDigit c = (48 \<le> c \<and> c \<le> 57)"

definition isWord :: "codeUnit \<Rightarrow> bool" where
  "isWord c = (isUpper c \<or> isLower c \<or> isDigit c \<or> c = 95)"

text \<open>\<open>s.trim()\<close> removes the white space at both ends.\<close>

definition trim :: "jsString \<Rightarrow> jsString" where
  "trim s = rev (dropWhile isSpace (rev (dropWhile isSpace s)))"

text \<open>\<open>s.indexOf(w)\<close>: the first position where \<open>w\<close> starts in \<open>s\<close>; \<open>None\<close> is \<open>-1\<close>.\<close>

fun indexOf :: "jsString \<Rightarrow> jsString \<Rightarrow> nat option" where
  "indexOf [] w = (if w = [] then Some 0 else None)"
| "indexOf (c # cs) w =
     (if prefix w (c # cs) then Some 0 else map_option Suc (indexOf cs w))"

text \<open>\<open>s.substring(k)\<close> for \<open>k \<ge> 0\<close>: a start beyond the end gives the empty string.\<close>

definition substring :: "jsString \<Rightarrow> nat \<Rightarrow> jsString" where
  "substring s k = drop k s"

section \<open>The command extractor\<close>

text \<open>
  The character class \<open>[^\w\s\+\-\*\/\(\)\.]\<close> of line 276 matches every code unit that
  is not kept; \<open>replace\<close> with the \<open>g\<close> flag puts a space (code unit 32) in the place of
  each match.
\<close>

definition isKept :: "codeUnit \<Rightarrow> bool" where
  "isKept c = (isWord c \<or> isSpace c \<or> c \<in> set (lit ''+-*/().''))"

definition replaceOthers :: "jsString \<Rightarrow> jsString" where
  "replaceOthers s = map (\<lambda>c. if isKept c then c else 32) s"

text \<open>\<open>replace(/\s+/g, ' ')\<close>: every maximal run of white space becomes one space.\<close>

function collapseSpaces :: "jsString \<Rightarrow> jsString" where
  "collapseSpaces [] = []"
| "collapseSpaces (c # cs) =
     (if isSpace c then 32 # collapseSpaces (dropWhile isSpace cs)
      else c # collapseSpaces cs)"
  by pat_completeness auto
termination
  by (relation "measure length") (auto simp: length_dropWhile_le less_Suc_eq_le)

definition cleanupText :: "jsString \<Rightarrow> jsString" where
  "cleanupText cmd = trim (collapseSpaces (replaceOthers cmd))"

text \<open>
  The loop over \<open>config.wakewords\<close>, lines 251 to 258 and again 260 to 266: it stops at
  the first word of the list whose lower-cased form occurs in \<open>lower\<close> and yields the
  word and the position.
\<close>

fun findWakeWord :: "platform \<Rightarrow> jsString \<Rightarrow> jsString list \<Rightarrow> (jsString \<times> nat) option" where
  "findWakeWord js lower [] = None"
| "findWakeWord js lower (word # rest) =
     (case indexOf lower (toLowerCase js word) of
        Some idx \<Rightarrow> Some (word, idx)
      | None \<Rightarrow> findWakeWord js lower rest)"

text \<open>
  The command text after the loop (the variable \<open>cmd\<close>): the whole lower-cased text
  when no wake word occurs, and otherwise the text from \<open>idx + word.length\<close> on, trimmed.
  \<open>word.length\<close> is the length of the word as configured, not of its lower-cased form.
\<close>

definition command :: "platform \<Rightarrow> config \<Rightarrow> jsString \<Rightarrow> jsString" where
  "command js cfg lower =
     (case findWakeWord js lower (wakewords cfg) of
        None \<Rightarrow> lower
      | Some (word, idx) \<Rightarrow> trim (substring lower (idx + length word)))"

text \<open>
  \<open>_parse(raw, wakeSoundDetected)\<close>, lines 245 to 290. Both branches of the first
  \<open>if\<close> run the same loop; only the one for \<open>wakeSoundDetected = false\<close> sets
  \<open>wakeWordFound\<close>. It returns the state it leaves and the events it dispatches.
\<close>

definition parse ::
  "platform \<Rightarrow> config \<Rightarrow> jsString \<Rightarrow> bool \<Rightarrow> engine \<Rightarrow> engine \<times> event list" where
  "parse js cfg raw wakeSoundDetected st =
     (let lower = toLowerCase js raw;
          cmd = command js cfg lower;
          wakeWordFound =
            (wakeSoundDetected \<or> findWakeWord js lower (wakewords cfg) \<noteq> None)
      in if \<not> wakeWordFound
         then (st, [SpeechDiscarded
                      (if debugWakeSound cfg then raw else lit ''(No Wake Word Detected)'')])
         else (st\<lparr> wakeSoundDetectedTime := None \<rparr>,
               [Result (toUpperCase js (if cleanup cfg then cleanupText cmd else cmd))
                       raw wakeSoundDetected]))"

text \<open>Whether the events of a call announce a command: one \<open>result\<close> event.\<close>

fun accepted :: "event list \<Rightarrow> bool" where
  "accepted [Result text original viaSound] = True"
| "accepted evs = False"

text \<open>
  For stating where a word is found: \<open>w\<close> occurs in \<open>s\<close> at position \<open>i\<close>, and \<open>i\<close> is
  the first such position.
\<close>

definition occursAt :: "jsString \<Rightarrow> jsString \<Rightarrow> nat \<Rightarrow> bool" where
  "occursAt s w i = (i \<le> length s \<and> prefix w (drop i s))"

definition firstOccurrence :: "jsString \<Rightarrow> jsString \<Rightarrow> nat \<Rightarrow> bool" where
  "firstOccurrence s w i = (occursAt s w i \<and> (\<forall>j \<in> {..<i}. \<not> occursAt s w j))"

text \<open>
  The cleanup as the specification words it, for comparison with \<open>cleanupText\<close>: the
  characters other than alphanumerics, white space and \<open>+ - * / ( ) .\<close> are stripped,
  then repeated white space is collapsed and the text is trimmed.
\<close>

definition isKeptAsSpecified :: "codeUnit \<Rightarrow> bool" where
  "isKeptAsSpecified c =
     (isUpper c \<or> isLower c \<or> isDigit c \<or> isSpace c \<or> c \<in> set (lit ''+-*/().''))"

definition cleanupAsSpecified :: "jsString \<Rightarrow> jsString" where
  "cleanupAsSpecified cmd = trim (collapseSpaces (filter isKeptAsSpecified cmd))"

section \<open>Transcription\<close>

text \<open>
  The ASR is outside the engine: a call of \<open>this.asr(audio)\<close> throws an error with a
  message or returns an object whose \<open>text\<close> is a string or \<open>undefined\<close>.
\<close>

datatype asr_outcome = AsrThrows jsString | AsrReturns "jsString option"

text \<open>
  \<open>_transcribeAndParse(audio, wakeSoundDetected)\<close>, lines 231 to 243, from the moment
  the ASR call has settled; \<open>st\<close> is the state at that moment. \<open>!text\<close> holds for
  \<open>undefined\<close> and for the empty string.
\<close>

definition transcribeAndParse ::
  "platform \<Rightarrow> config \<Rightarrow> asr_outcome \<Rightarrow> bool \<Rightarrow> engine \<Rightarrow> engine \<times> event list" where
  "transcribeAndParse js cfg outcome wakeSoundDetected st =
     (case outcome of
        AsrThrows message \<Rightarrow> (st, [Error (lit ''ASR Fail: '' @ message)])
      | AsrReturns None \<Rightarrow> (st, [SpeechDiscarded (lit ''(Empty Recognition)'')])
      | AsrReturns (Some text) \<Rightarrow>
          if text = [] then (st, [SpeechDiscarded (lit ''(Empty Recognition)'')])
          else parse js cfg text wakeSoundDetected st)"

section \<open>Double arithmetic\<close>

text \<open>
  Line 210 computes \<open>Math.floor((offsetMs / 1000) * 16000)\<close> in IEEE 754 binary64: the
  quotient and the product are each rounded to the nearest double, ties to even. A
  non-zero double in the normal range is \<open>m * 2 ^ (e - 52)\<close> with \<open>2 ^ 52 \<le> m < 2 ^ 53\<close>,
  where \<open>e\<close> is the binary exponent of its magnitude; overflow and subnormal numbers
  are out of the reach of this computation and are not modelled.
\<close>

text \<open>\<open>log2floor n\<close> is the position of the leading bit of \<open>n \<ge> 1\<close>.\<close>

function log2floor :: "int \<Rightarrow> int" where
  "log2floor n = (if n \<le> 1 then 0 else 1 + log2floor (n div 2))"
  by pat_completeness auto
termination
  by (relation "measure nat") auto

declare log2floor.simps [simp del]

text \<open>The binary exponent of \<open>x > 0\<close>: the \<open>e\<close> with \<open>2 ^ e \<le> x < 2 ^ (e + 1)\<close>.\<close>

definition binaryExponent :: "real \<Rightarrow> int" where
  "binaryExponent x =
     (if 1 \<le> x then log2floor \<lfloor>x\<rfloor>
      else - (1 + log2floor (\<lceil>1 / x\<rceil> - 1)))"

definition roundTiesToEven :: "real \<Rightarrow> int" where
  "roundTiesToEven x =
     (let f = \<lfloor>x\<rfloor>; r = x - of_int f
      in if r < 1 / 2 then f
         else if 1 / 2 < r then f + 1
         else if even f then f else f + 1)"

definition roundDouble :: "real \<Rightarrow> real" where
  "roundDouble x =
     (if x = 0 then 0
      else let u = 2 powi (binaryExponent \<bar>x\<bar> - 52)
           in sgn x * of_int (roundTiesToEven (\<bar>x\<bar> / u)) * u)"

definition trimSamplesOf :: "int \<Rightarrow> int" where
  "trimSamplesOf offsetMs =
     \<lfloor>roundDouble (roundDouble (of_int offsetMs / 1000) * 16000)\<rfloor>"

section \<open>The speech segment classifier\<close>

text \<open>
  What \<open>_handleSpeech\<close> does with a segment: it drops it with a reason, or passes audio
  to \<open>_transcribeAndParse\<close> with the flag \<open>wakeSoundDetected\<close>. The audio is the
  list of the samples of the \<open>Float32Array\<close>.
\<close>

datatype decision = Discard jsString | Transcribe "real list" bool

text \<open>A timestamp field in arithmetic and comparisons: \<open>null\<close> counts as 0.\<close>

definition numberOf :: "int option \<Rightarrow> int" where
  "numberOf t = (case t of None \<Rightarrow> 0 | Some v \<Rightarrow> v)"

text \<open>Lines 199 to 203; \<open>None\<close> is \<open>Infinity\<close>, which is below no delay.\<close>

definition timeSinceWakeSound :: "int \<Rightarrow> engine \<Rightarrow> int option" where
  "timeSinceWakeSound now st =
     (if truthy (wakeSoundDetectedTime st)
      then Some (now - numberOf (wakeSoundDetectedTime st)) else None)"

definition inSession :: "config \<Rightarrow> int \<Rightarrow> engine \<Rightarrow> bool" where
  "inSession cfg now st =
     (case timeSinceWakeSound now st of
        None \<Rightarrow> False
      | Some d \<Rightarrow> real_of_int d < wakesoundDelay cfg)"

text \<open>Lines 206 to 218: the audio handed on inside a session.\<close>

definition audioToProcess :: "real list \<Rightarrow> engine \<Rightarrow> real list" where
  "audioToProcess audio st =
     (if speechStartTime st \<le> numberOf (wakeSoundDetectedTime st)
      then let offsetMs = numberOf (wakeSoundDetectedTime st) - speechStartTime st;
               trimSamples = trimSamplesOf offsetMs
           in if trimSamples < int (length audio) then drop (nat trimSamples) audio
              else audio
      else audio)"

text \<open>
  Lines 198 to 228, the decision once the wait is over, taken at time \<open>now\<close> in the
  state \<open>st\<close>.
\<close>

definition decide :: "config \<Rightarrow> real list \<Rightarrow> int \<Rightarrow> engine \<Rightarrow> decision" where
  "decide cfg audio now st =
     (if inSession cfg now st then Transcribe (audioToProcess audio st) True
      else if \<not> requireWakeSound cfg then Transcribe audio False
      else Discard (lit ''(Waiting for Wake Sound)''))"

text \<open>
  The wait of lines 189 to 196 polls the clock and the shared state, and sleeps 50 ms
  between two polls while other callbacks run. Every call of \<open>Date.now()\<close> is a reading
  of its own. What the loop sees in one round is a poll: the reading in the loop
  condition (line 191), the reading in the second \<open>break\<close> test (line 193) and the state,
  which does not change within a round.
\<close>

record poll =
  loopClock :: int
  windowClock :: int
  seen :: engine

text \<open>The two \<open>break\<close> conditions, lines 192 and 193.\<close>

definition triggerAfterSpeechStart :: "engine \<Rightarrow> bool" where
  "triggerAfterSpeechStart st =
     (truthy (wakeSoundDetectedTime st)
      \<and> speechStartTime st < numberOf (wakeSoundDetectedTime st))"

definition windowClosed :: "config \<Rightarrow> int \<Rightarrow> engine \<Rightarrow> bool" where
  "windowClosed cfg now st =
     (truthy (wakeSoundDetectedTime st)
      \<and> wakesoundDelay cfg < real_of_int (now - numberOf (wakeSoundDetectedTime st)))"

text \<open>
  \<open>syncWait\<close> runs the loop from the reading \<open>startSync\<close> of line 190 on the first poll
  and the later ones, and yields the state in which it stops with the number of sleeps
  taken. The loop stops at the first poll at which 600 ms have passed or one of the two
  \<open>break\<close> conditions holds; \<open>None\<close> says that the polls given end before the loop does.
\<close>

fun syncWait :: "config \<Rightarrow> int \<Rightarrow> poll \<Rightarrow> poll list \<Rightarrow> (engine \<times> nat) option" where
  "syncWait cfg startSync p [] =
     (if loopClock p - startSync < 600
      then (if triggerAfterSpeechStart (seen p) then Some (seen p, 0)
            else if windowClosed cfg (windowClock p) (seen p) then Some (seen p, 0)
            else None)
      else Some (seen p, 0))"
| "syncWait cfg startSync p (nxt # later) =
     (if loopClock p - startSync < 600
      then (if triggerAfterSpeechStart (seen p) then Some (seen p, 0)
            else if windowClosed cfg (windowClock p) (seen p) then Some (seen p, 0)
            else map_option (\<lambda>(st, n). (st, Suc n)) (syncWait cfg startSync nxt later))
      else Some (seen p, 0))"

text \<open>
  \<open>_handleSpeech(audio)\<close>, lines 183 to 229, up to its decision. \<open>now\<close> is the reading
  of line 198, taken in the state in which the loop stopped.
\<close>

definition handleSpeech ::
  "config \<Rightarrow> real list \<Rightarrow> int \<Rightarrow> poll \<Rightarrow> poll list \<Rightarrow> int \<Rightarrow> (decision \<times> nat) option" where
  "handleSpeech cfg audio startSync p later now =
     (if length audio < 2000 then Some (Discard (lit ''(Audio Too Short)''), 0)
      else case syncWait cfg startSync p later of
             None \<Rightarrow> None
           | Some (st, sleeps) \<Rightarrow> Some (decide cfg audio now st, sleeps))"

text \<open>
  What follows the decision: a dropped segment is announced by \<open>speechdiscarded\<close>, audio
  to transcribe goes to the ASR and then to \<open>_transcribeAndParse\<close>, in the state \<open>st\<close>
  the engine has when the ASR call settles.
\<close>

definition carryOut ::
  "platform \<Rightarrow> config \<Rightarrow> (real list \<Rightarrow> asr_outcome) \<Rightarrow> decision \<Rightarrow> engine
     \<Rightarrow> engine \<times> event list" where
  "carryOut js cfg asr d st =
     (case d of
        Discard reason \<Rightarrow> (st, [SpeechDiscarded reason])
      | Transcribe audio viaSound \<Rightarrow> transcribeAndParse js cfg (asr audio) viaSound st)"

section \<open>Successive segments\<close>

text \<open>
  The ASR calls of successive segments settle one after the other on the event loop;
  each is given with its outcome and its flag, and the state is passed along.
\<close>

fun transcribeAll ::
  "platform \<Rightarrow> config \<Rightarrow> (asr_outcome \<times> bool) list \<Rightarrow> engine \<Rightarrow> engine \<times> event list" where
  "transcribeAll js cfg [] st = (st, [])"
| "transcribeAll js cfg ((outcome, viaSound) # jobs) st =
     (case transcribeAndParse js cfg outcome viaSound st of
        (st1, evs1) \<Rightarrow>
          (case transcribeAll js cfg jobs st1 of (st2, evs2) \<Rightarrow> (st2, evs1 @ evs2)))"

section \<open>Example values\<close>

definition noOptions :: options where
  "noOptions =
     \<lparr> opt_modelId = None, opt_modelQuantization = None, opt_wakewords = None,
       opt_wakeword = None, opt_wakesoundURL = None, opt_wakesoundThreshold = None,
       opt_wakesoundIndex = None, opt_wakesoundDuration = None, opt_wakesoundDelay = None,
       opt_vadThreshold = None, opt_cleanup = None, opt_debugWakeSound = None,
       opt_requireWakeSound = None \<rparr>"

text \<open>
  The case mappings of JavaScript on ASCII text, where they touch the 26 letters only and
  keep the length; the code units from 128 on are left as they are here. It stands for
  the platform in the examples, whose texts and wake words are ASCII.
\<close>

definition asciiCase :: platform where
  "asciiCase =
     \<lparr> toLowerCase = map (\<lambda>c. if isUpper c then c + 32 else c),
       toUpperCase = map (\<lambda>c. if isLower c then c - 32 else c) \<rparr>"

text \<open>
  A platform that also knows the pair U+00C9 and U+00E9 (E with acute), as JavaScript does.
\<close>

definition accentCase :: platform where
  "accentCase =
     \<lparr> toLowerCase = map (\<lambda>c. if isUpper c then c + 32 else if c = 201 then 233 else c),
       toUpperCase = map (\<lambda>c. if isLower c then c - 32 else if c = 233 then 201 else c) \<rparr>"

text \<open>
  A platform on which lower-casing changes the length, as JavaScript's does for U+0130
  (capital I with dot above), whose lower case is \<open>i\<close> followed by U+0307.
\<close>

definition dottedCase :: platform where
  "dottedCase =
     \<lparr> toLowerCase =
         concat \<circ> map (\<lambda>c. if isUpper c then [c + 32] else if c = 304 then [105, 775] else [c]),
       toUpperCase = map (\<lambda>c. if isLower c then c - 32 else c) \<rparr>"

text \<open>The wake word U+0130, with the cleanup switched off.\<close>

definition dotted :: config where
  "dotted =
     constructor (noOptions\<lparr> opt_wakewords := Some [[304]], opt_cleanup := Some False \<rparr>)"

text \<open>The wake word \<open>caf\<close> followed by U+00E9.\<close>

definition cafe :: config where
  "cafe = constructor (noOptions\<lparr> opt_wakewords := Some [lit ''caf'' @ [233]] \<rparr>)"

text \<open>The wake words of the README's example, with the defaults for the rest.\<close>

definition readmeConfig :: config where
  "readmeConfig =
     constructor (noOptions\<lparr> opt_wakewords := Some [lit ''hey akari'', lit ''computer'', lit ''jarvis''] \<rparr>)"

text \<open>A state with a wake sound heard at 1500 ms, in a segment begun at 1000 ms.\<close>

definition heardAt1500 :: engine where
  "heardAt1500 =
     \<lparr> wakeSoundDetectedTime = Some 1500, lastWakeSoundScore = 0.9, speechStartTime = 1000 \<rparr>"

text \<open>A state whose wake-sound timestamp, 1005 ms, is ahead of a clock that reads 1000 ms.\<close>

definition heardAt1005 :: engine where
  "heardAt1005 =
     \<lparr> wakeSoundDetectedTime = Some 1005, lastWakeSoundScore = 0.9, speechStartTime = 900 \<rparr>"

text \<open>The scenario of the specification: a wake sound at 1000 ms, speech begun at 900 ms.\<close>

definition heardAt1000 :: engine where
  "heardAt1000 =
     \<lparr> wakeSoundDetectedTime = Some 1000, lastWakeSoundScore = 0.9, speechStartTime = 900 \<rparr>"

text \<open>One second of silence at 16 kHz, and the shortest segment that is classified.\<close>

definition oneSecond :: "real list" where
  "oneSecond = replicate 16000 0"

definition shortest :: "real list" where
  "shortest = replicate 2000 0"

text \<open>The wake words of the specification's example on the order of the list.\<close>

definition computerJarvis :: config where
  "computerJarvis = constructor (noOptions\<lparr> opt_wakewords := Some [lit ''computer'', lit ''jarvis''] \<rparr>)"

text \<open>A wake word configured with a capital letter.\<close>

definition capitalised :: config where
  "capitalised = constructor (noOptions\<lparr> opt_wakewords := Some [lit ''Computer''] \<rparr>)"

text \<open>Configurations with a session window of 100 ms and of 500 ms.\<close>

definition window100 :: config where
  "window100 = constructor (noOptions\<lparr> opt_wakesoundDelay := Some 100 \<rparr>)"

definition window500 :: config where
  "window500 =
     constructor (noOptions\<lparr> opt_wakesoundDelay := Some 500, opt_requireWakeSound := Some True \<rparr>)"

text \<open>A state with no wake sound heard, and the polls of a full wait in that state.\<close>

definition quiet :: engine where
  "quiet = \<lparr> wakeSoundDetectedTime = None, lastWakeSoundScore = 0, speechStartTime = 4000 \<rparr>"

text \<open>A poll whose two readings of the clock agree.\<close>

definition pollAt :: "int \<Rightarrow> engine \<Rightarrow> poll" where
  "pollAt t st = \<lparr> loopClock = t, windowClock = t, seen = st \<rparr>"

definition quietPolls :: "poll list" where
  "quietPolls =
     [pollAt 5050 quiet, pollAt 5100 quiet, pollAt 5150 quiet, pollAt 5200 quiet,
      pollAt 5250 quiet, pollAt 5300 quiet, pollAt 5350 quiet, pollAt 5400 quiet,
      pollAt 5450 quiet, pollAt 5500 quiet, pollAt 5550 quiet, pollAt 5600 quiet]"

section \<open>Properties\<close>

text \<open>
  C10. An option given as 0 is treated as if it had been left out: \<open>wakesoundIndex: 0\<close>
  becomes 2, \<open>wakesoundThreshold: 0\<close> and \<open>vadThreshold: 0\<close> become 0.75, and the whole
  configuration is the one built without the option. Of the three flags only \<open>cleanup\<close>
  tells an explicit \<open>false\<close> from an omitted option: \<open>debugWakeSound\<close> and
  \<open>requireWakeSound\<close> are built the same from both.
\<close>

theorem constructor_zero_is_default:
  "wakesoundIndex (constructor (c\<lparr> opt_wakesoundIndex := Some 0 \<rparr>)) = 2
   \<and> wakesoundThreshold (constructor (c\<lparr> opt_wakesoundThreshold := Some 0 \<rparr>)) = 0.75
   \<and> vadThreshold (constructor (c\<lparr> opt_vadThreshold := Some 0 \<rparr>)) = 0.75
   \<and> constructor (c\<lparr> opt_wakesoundIndex := Some 0 \<rparr>)
       = constructor (c\<lparr> opt_wakesoundIndex := None \<rparr>)
   \<and> constructor (c\<lparr> opt_wakesoundThreshold := Some 0 \<rparr>)
       = constructor (c\<lparr> opt_wakesoundThreshold := None \<rparr>)
   \<and> constructor (c\<lparr> opt_vadThreshold := Some 0 \<rparr>)
       = constructor (c\<lparr> opt_vadThreshold := None \<rparr>)
   \<and> cleanup (constructor (c\<lparr> opt_cleanup := Some False \<rparr>)) = False
   \<and> cleanup (constructor (c\<lparr> opt_cleanup := None \<rparr>)) = True
   \<and> constructor (c\<lparr> opt_debugWakeSound := Some False \<rparr>)
       = constructor (c\<lparr> opt_debugWakeSound := None \<rparr>)
   \<and> constructor (c\<lparr> opt_requireWakeSound := Some False \<rparr>)
       = constructor (c\<lparr> opt_requireWakeSound := None \<rparr>)"
  by (simp add: constructor_def orNum_def orBool_def split: option.split)

subsection \<open>The example values\<close>

lemma readmeConfig_fields:
  "wakewords readmeConfig = [lit ''hey akari'', lit ''computer'', lit ''jarvis'']"
  "wakesoundThreshold readmeConfig = 0.75"
  "wakesoundIndex readmeConfig = 2"
  "wakesoundDelay readmeConfig = 0"
  "cleanup readmeConfig"
  "\<not> debugWakeSound readmeConfig"
  "\<not> requireWakeSound readmeConfig"
  by (simp_all add: readmeConfig_def constructor_def noOptions_def orNum_def orBool_def orStr_def)

lemma window100_fields:
  "wakesoundDelay window100 = 100" "\<not> requireWakeSound window100"
  by (simp_all add: window100_def constructor_def noOptions_def orNum_def orBool_def)

lemma window500_fields:
  "wakesoundDelay window500 = 500" "requireWakeSound window500"
  by (simp_all add: window500_def constructor_def noOptions_def orNum_def orBool_def)

lemma quiet_fields:
  "wakeSoundDetectedTime quiet = None" "speechStartTime quiet = 4000"
  by (simp_all add: quiet_def)

lemma heardAt1005_fields:
  "wakeSoundDetectedTime heardAt1005 = Some 1005" "speechStartTime heardAt1005 = 900"
  by (simp_all add: heardAt1005_def)

lemma heardAt1000_fields:
  "wakeSoundDetectedTime heardAt1000 = Some 1000" "speechStartTime heardAt1000 = 900"
  by (simp_all add: heardAt1000_def)

lemma heardAt1500_fields:
  "wakeSoundDetectedTime heardAt1500 = Some 1500" "speechStartTime heardAt1500 = 1000"
  by (simp_all add: heardAt1500_def)

lemma heard_trigger:
  "triggerAfterSpeechStart heardAt1005" "triggerAfterSpeechStart heardAt1000"
  "triggerAfterSpeechStart heardAt1500"
  by (simp_all add: triggerAfterSpeechStart_def truthy_def numberOf_def
      heardAt1005_fields heardAt1000_fields heardAt1500_fields)

lemma example_lengths: "length shortest = 2000" "length oneSecond = 16000"
  by (simp_all add: shortest_def oneSecond_def)

lemma computerJarvis_fields:
  "wakewords computerJarvis = [lit ''computer'', lit ''jarvis'']"
  "cleanup computerJarvis"
  "\<not> debugWakeSound computerJarvis"
  by (simp_all add: computerJarvis_def constructor_def noOptions_def orNum_def orBool_def orStr_def)

lemma capitalised_fields:
  "wakewords capitalised = [lit ''Computer'']"
  "cleanup capitalised"
  "\<not> debugWakeSound capitalised"
  by (simp_all add: capitalised_def constructor_def noOptions_def orNum_def orBool_def orStr_def)

text \<open>The rules by which the examples on strings are evaluated.\<close>

lemma asciiCase_fields:
  "toLowerCase asciiCase s = map (\<lambda>c. if isUpper c then c + 32 else c) s"
  "toUpperCase asciiCase s = map (\<lambda>c. if isLower c then c - 32 else c) s"
  by (simp_all add: asciiCase_def)

lemma accentCase_fields:
  "toLowerCase accentCase s
     = map (\<lambda>c. if isUpper c then c + 32 else if c = 201 then 233 else c) s"
  "toUpperCase accentCase s
     = map (\<lambda>c. if isLower c then c - 32 else if c = 233 then 201 else c) s"
  by (simp_all add: accentCase_def)

lemma cafe_fields:
  "wakewords cafe = [lit ''caf'' @ [233]]"
  "cleanup cafe"
  "\<not> debugWakeSound cafe"
  by (simp_all add: cafe_def constructor_def noOptions_def orNum_def orBool_def orStr_def)

lemma dottedCase_fields:
  "toLowerCase dottedCase s
     = concat (map (\<lambda>c. if isUpper c then [c + 32] else if c = 304 then [105, 775] else [c]) s)"
  "toUpperCase dottedCase s = map (\<lambda>c. if isLower c then c - 32 else c) s"
  by (simp_all add: dottedCase_def)

lemma dotted_fields:
  "wakewords dotted = [[304]]"
  "\<not> cleanup dotted"
  "\<not> debugWakeSound dotted"
  by (simp_all add: dotted_def constructor_def noOptions_def orNum_def orBool_def orStr_def)

lemmas string_eval = lit_def asciiCase_fields accentCase_fields isUpper_def isLower_def
  isDigit_def isWord_def isSpace_def isKept_def replaceOthers_def cleanupText_def trim_def
  command_def substring_def parse_def Let_def

subsection \<open>Evaluating the double arithmetic\<close>

lemma log2floor_small: "n \<le> 1 \<Longrightarrow> log2floor n = 0"
  by (simp add: log2floor.simps)

lemma log2floor_step: "1 < n \<Longrightarrow> log2floor n = 1 + log2floor (n div 2)"
  by (subst log2floor.simps) simp

lemmas double_eval = trimSamplesOf_def roundDouble_def binaryExponent_def roundTiesToEven_def
  log2floor_small log2floor_step power_int_def power_divide Let_def

text \<open>
  100 ms and 105 ms are 1600 and 1680 samples. 1001 ms are 16015 samples, one less than
  \<open>16 * 1001\<close>: the quotient \<open>1001 / 1000\<close> is rounded down, and so is the product.
\<close>

lemma trim_100: "trimSamplesOf 100 = 1600"
  by (simp add: double_eval)

lemma trim_105: "trimSamplesOf 105 = 1680"
  by (simp add: double_eval)

lemma trim_1001: "trimSamplesOf 1001 = 16015"
  by (simp add: double_eval)

subsection \<open>Bounds of the double arithmetic\<close>

text \<open>\<open>log2floor\<close> and \<open>binaryExponent\<close> compute the exponent they are meant to.\<close>

lemma log2floor_bounds:
  "1 \<le> n \<Longrightarrow> 0 \<le> log2floor n \<and> 2 ^ nat (log2floor n) \<le> n \<and> n < 2 * 2 ^ nat (log2floor n)"
proof (induction n rule: log2floor.induct)
  case (1 n)
  show ?case
  proof (cases "n \<le> 1")
    case True
    with 1(2) have "n = 1" by simp
    then show ?thesis by (simp add: log2floor_small)
  next
    case False
    then have half: "1 \<le> n div 2" by simp
    define k where "k = log2floor (n div 2)"
    from 1(1) [OF False half]
    have k: "0 \<le> k" "2 ^ nat k \<le> n div 2" "n div 2 < 2 * 2 ^ nat k"
      by (simp_all add: k_def)
    from False have l: "log2floor n = 1 + k" by (simp add: log2floor_step k_def)
    from k(1) have n: "nat (1 + k) = Suc (nat k)" by simp
    have "2 * (n div 2) \<le> n" "n < 2 * (n div 2) + 2" by simp_all
    with k show ?thesis unfolding l n by simp
  qed
qed

lemma binaryExponent_bounds:
  assumes "0 < x"
  shows "2 powi (binaryExponent x) \<le> x \<and> x < 2 powi (binaryExponent x + 1)"
proof (cases "1 \<le> x")
  case True
  then have fl: "1 \<le> \<lfloor>x\<rfloor>" by simp
  define k where "k = log2floor \<lfloor>x\<rfloor>"
  from log2floor_bounds [OF fl]
  have k: "0 \<le> k" "2 ^ nat k \<le> \<lfloor>x\<rfloor>" "\<lfloor>x\<rfloor> < 2 * 2 ^ nat k"
    by (simp_all add: k_def)
  from True have e: "binaryExponent x = k" by (simp add: binaryExponent_def k_def)
  from k(2) have "real_of_int (2 ^ nat k) \<le> real_of_int \<lfloor>x\<rfloor>" by (simp only: of_int_le_iff)
  then have lo: "2 ^ nat k \<le> x" by (simp add: le_floor_iff)
  from k(3) have "\<lfloor>x\<rfloor> + 1 \<le> 2 * 2 ^ nat k" by simp
  then have "real_of_int (\<lfloor>x\<rfloor> + 1) \<le> real_of_int (2 * 2 ^ nat k)" by (simp only: of_int_le_iff)
  moreover have "x < real_of_int (\<lfloor>x\<rfloor> + 1)" by linarith
  ultimately have "x < real_of_int (2 * 2 ^ nat k)" by linarith
  then have hi: "x < 2 * 2 ^ nat k" by simp
  from k(1) have "nat (k + 1) = Suc (nat k)" by simp
  with k(1) lo hi show ?thesis unfolding e by (simp add: power_int_def)
next
  case False
  with assms have x: "0 < x" "x < 1" by simp_all
  define m where "m = \<lceil>1 / x\<rceil> - 1"
  from x have "1 < 1 / x" by simp
  then have "2 \<le> \<lceil>1 / x\<rceil>" by linarith
  then have m1: "1 \<le> m" by (simp add: m_def)
  have mlo: "real_of_int m < 1 / x" unfolding m_def by linarith
  have mhi: "1 / x \<le> real_of_int m + 1" unfolding m_def by linarith
  define k where "k = log2floor m"
  from log2floor_bounds [OF m1]
  have k: "0 \<le> k" "2 ^ nat k \<le> m" "m < 2 * 2 ^ nat k"
    by (simp_all add: k_def)
  from False have e: "binaryExponent x = - (1 + k)"
    by (simp add: binaryExponent_def k_def m_def)
  from k(3) have "m + 1 \<le> 2 * 2 ^ nat k" by simp
  then have "real_of_int (m + 1) \<le> real_of_int (2 * 2 ^ nat k)" by (simp only: of_int_le_iff)
  with mhi have "1 / x \<le> real_of_int (2 * 2 ^ nat k)" by linarith
  then have a: "1 / x \<le> 2 * 2 ^ nat k" by simp
  from k(2) have "real_of_int (2 ^ nat k) \<le> real_of_int m" by (simp only: of_int_le_iff)
  with mlo have "real_of_int (2 ^ nat k) < 1 / x" by linarith
  then have b: "2 ^ nat k < 1 / x" by simp
  from a x have lo: "1 / (2 * 2 ^ nat k) \<le> x"
    by (simp add: field_simps)
  from b x have hi: "x < 1 / 2 ^ nat k"
    by (simp add: field_simps)
  have p1: "(2::real) powi (- (1 + k)) = 1 / (2 * 2 ^ nat k)"
    using k(1) by (simp add: power_int_def nat_add_distrib field_simps)
  have p2: "(2::real) powi (- (1 + k) + 1) = 1 / 2 ^ nat k"
    using k(1) by (simp add: power_int_def field_simps)
  from lo hi show ?thesis unfolding e p1 p2 by simp
qed

text \<open>Rounding goes to a nearest integer, so it is off by a half at most.\<close>

lemma roundTiesToEven_cases:
  "roundTiesToEven z = \<lfloor>z\<rfloor> \<and> z - real_of_int \<lfloor>z\<rfloor> \<le> 1 / 2
   \<or> roundTiesToEven z = \<lfloor>z\<rfloor> + 1 \<and> 1 / 2 \<le> z - real_of_int \<lfloor>z\<rfloor>"
  by (auto simp add: roundTiesToEven_def Let_def)

lemma roundTiesToEven_nearest:
  "\<bar>real_of_int (roundTiesToEven z) - z\<bar> \<le> \<bar>real_of_int m - z\<bar>"
proof -
  define f where "f = \<lfloor>z\<rfloor>"
  have f: "real_of_int f \<le> z" "z < real_of_int f + 1" unfolding f_def by linarith+
  have m: "real_of_int m \<le> real_of_int f \<or> real_of_int f + 1 \<le> real_of_int m"
  proof (cases "m \<le> f")
    case True
    then show ?thesis by simp
  next
    case False
    then have "f + 1 \<le> m" by simp
    then have "real_of_int (f + 1) \<le> real_of_int m" by (simp only: of_int_le_iff)
    then show ?thesis by simp
  qed
  from roundTiesToEven_cases [of z]
  consider "roundTiesToEven z = f" "z - real_of_int f \<le> 1 / 2"
    | "roundTiesToEven z = f + 1" "1 / 2 \<le> z - real_of_int f"
    unfolding f_def by blast
  then show ?thesis
  proof cases
    case 1
    from m show ?thesis
    proof
      assume "real_of_int m \<le> real_of_int f"
      with 1 f show ?thesis by (simp add: abs_real_def)
    next
      assume "real_of_int f + 1 \<le> real_of_int m"
      with 1 f show ?thesis by (simp add: abs_real_def)
    qed
  next
    case 2
    from m show ?thesis
    proof
      assume "real_of_int m \<le> real_of_int f"
      with 2 f show ?thesis by (simp add: abs_real_def)
    next
      assume "real_of_int f + 1 \<le> real_of_int m"
      with 2 f show ?thesis by (simp add: abs_real_def)
    qed
  qed
qed

lemma roundTiesToEven_half: "\<bar>real_of_int (roundTiesToEven z) - z\<bar> \<le> 1 / 2"
proof -
  have "real_of_int \<lfloor>z\<rfloor> \<le> z" "z < real_of_int \<lfloor>z\<rfloor> + 1" by linarith+
  moreover have "\<bar>real_of_int (roundTiesToEven z) - z\<bar> \<le> \<bar>real_of_int \<lfloor>z\<rfloor> - z\<bar>"
    by (rule roundTiesToEven_nearest)
  moreover have "\<bar>real_of_int (roundTiesToEven z) - z\<bar> \<le> \<bar>real_of_int (\<lfloor>z\<rfloor> + 1) - z\<bar>"
    by (rule roundTiesToEven_nearest)
  ultimately show ?thesis by linarith
qed

lemma abs_scale:
  fixes u a x :: real
  assumes "0 < u"
  shows "\<bar>a - x / u\<bar> * u = \<bar>a * u - x\<bar>"
proof -
  from assms have "\<bar>a - x / u\<bar> * u = \<bar>a - x / u\<bar> * \<bar>u\<bar>" by simp
  also have "\<dots> = \<bar>(a - x / u) * u\<bar>" by (simp only: abs_mult)
  also from assms have "(a - x / u) * u = a * u - x" by (simp add: left_diff_distrib)
  finally show ?thesis .
qed

text \<open>
  A rounded double is off by half a unit in the last place at most, and no integer below
  \<open>2 ^ 53\<close> is nearer to the exact value.
\<close>

lemma roundDouble_positive:
  "0 < x \<Longrightarrow> roundDouble x
      = real_of_int (roundTiesToEven (x / 2 powi (binaryExponent x - 52)))
        * 2 powi (binaryExponent x - 52)"
  by (simp add: roundDouble_def Let_def)

lemma roundDouble_error:
  assumes "0 < x"
  shows "\<bar>roundDouble x - x\<bar> \<le> 2 powi (binaryExponent x - 52) / 2"
proof -
  define u :: real where "u = 2 powi (binaryExponent x - 52)"
  have u: "0 < u" by (simp add: u_def)
  have "\<bar>real_of_int (roundTiesToEven (x / u)) - x / u\<bar> \<le> 1 / 2"
    by (rule roundTiesToEven_half)
  then have "\<bar>real_of_int (roundTiesToEven (x / u)) - x / u\<bar> * u \<le> 1 / 2 * u"
    using u by (simp only: mult_le_cancel_right_pos)
  moreover have "\<bar>real_of_int (roundTiesToEven (x / u)) - x / u\<bar> * u
      = \<bar>real_of_int (roundTiesToEven (x / u)) * u - x\<bar>"
    using u by (rule abs_scale)
  ultimately show ?thesis
    using assms by (simp add: roundDouble_positive u_def [symmetric])
qed

lemma roundDouble_nearest_int:
  assumes "0 < y" and "binaryExponent y \<le> 52"
  shows "\<bar>roundDouble y - y\<bar> \<le> \<bar>real_of_int m - y\<bar>"
proof -
  define j where "j = nat (52 - binaryExponent y)"
  define u :: real where "u = 2 powi (binaryExponent y - 52)"
  have u: "0 < u" by (simp add: u_def)
  from assms(2) have uj: "u = 1 / 2 ^ j"
    by (auto simp add: u_def j_def power_int_def field_simps
        simp flip: power_inverse)
  have "real_of_int m / u = real_of_int (m * 2 ^ j)" by (simp add: uj)
  moreover have "\<bar>real_of_int (roundTiesToEven (y / u)) - y / u\<bar>
      \<le> \<bar>real_of_int (m * 2 ^ j) - y / u\<bar>"
    by (rule roundTiesToEven_nearest)
  ultimately have "\<bar>real_of_int (roundTiesToEven (y / u)) - y / u\<bar>
      \<le> \<bar>real_of_int m / u - y / u\<bar>" by simp
  then have "\<bar>real_of_int (roundTiesToEven (y / u)) - y / u\<bar> * u
      \<le> \<bar>real_of_int m / u - y / u\<bar> * u"
    using u by (simp only: mult_le_cancel_right_pos)
  moreover have "\<bar>real_of_int (roundTiesToEven (y / u)) - y / u\<bar> * u
      = \<bar>real_of_int (roundTiesToEven (y / u)) * u - y\<bar>"
    using u by (rule abs_scale)
  moreover have "\<bar>real_of_int m / u - y / u\<bar> * u = \<bar>real_of_int m - y\<bar>"
    using abs_scale [OF u, of "real_of_int m / u" y] u by simp
  ultimately show ?thesis
    using assms(1) by (simp add: roundDouble_positive u_def [symmetric])
qed

text \<open>
  The number of samples to trim is \<open>16 * offsetMs\<close> or one less: the two roundings
  move the product by less than a quarter, and the second one cannot move it past the
  integer \<open>16 * offsetMs\<close>, which is a double.
\<close>

lemma trimSamplesOf_bounds:
  assumes "0 \<le> n" and "n < 2 ^ 40"
  shows "16 * n - 1 \<le> trimSamplesOf n \<and> trimSamplesOf n \<le> 16 * n"
proof (cases "n = 0")
  case True
  then show ?thesis by (simp add: trimSamplesOf_def roundDouble_def)
next
  case False
  with assms(1) have "1 \<le> n" by simp
  then have "real_of_int 1 \<le> real_of_int n" by (simp only: of_int_le_iff)
  moreover from assms(2) have "real_of_int n < real_of_int (2 ^ 40)" by (simp only: of_int_less_iff)
  ultimately have n: "1 \<le> real_of_int n" "real_of_int n < 2 ^ 40" by simp_all
  define x where "x = real_of_int n / 1000"
  define y where "y = roundDouble x * 16000"
  from n have x: "0 < x" by (simp add: x_def)
  have "\<bar>roundDouble x - x\<bar> \<le> 2 powi (binaryExponent x - 52) / 2"
    using x by (rule roundDouble_error)
  also have "2 powi (binaryExponent x - 52) / 2 = 2 powi (binaryExponent x) / (2 ^ 53 :: real)"
    by (simp add: power_int_diff)
  also have "\<dots> \<le> x / 2 ^ 53"
    using binaryExponent_bounds [OF x] by (simp add: divide_right_mono)
  finally have r: "\<bar>roundDouble x - x\<bar> \<le> x / 2 ^ 53" .
  have "\<bar>y - 16 * real_of_int n\<bar> = 16000 * \<bar>roundDouble x - x\<bar>"
    by (simp add: y_def x_def abs_real_def)
  also from r have "\<dots> \<le> 16000 * (x / 2 ^ 53)" by simp
  also have "\<dots> = 16 * real_of_int n / 2 ^ 53" by (simp add: x_def)
  also from n have "\<dots> < 1 / 4" by simp
  finally have close: "\<bar>y - 16 * real_of_int n\<bar> < 1 / 4" .
  with n have y: "0 < y" "y < 2 ^ 45" by (simp_all add: abs_real_def split: if_splits)
  have e: "binaryExponent y \<le> 52"
  proof (rule ccontr)
    assume "\<not> binaryExponent y \<le> 52"
    then have "(2::real) powi 45 \<le> 2 powi (binaryExponent y)"
      by (intro power_int_increasing) simp_all
    also have "\<dots> \<le> y" using binaryExponent_bounds [OF y(1)] by simp
    finally show False using y(2) by simp
  qed
  have "\<bar>roundDouble y - y\<bar> \<le> \<bar>real_of_int (16 * n) - y\<bar>"
    using y(1) e by (rule roundDouble_nearest_int)
  with close have near: "\<bar>roundDouble y - 16 * real_of_int n\<bar> < 1 / 2"
    by (simp only: of_int_mult of_int_numeral; linarith)
  have t: "trimSamplesOf n = \<lfloor>roundDouble y\<rfloor>"
    by (simp add: trimSamplesOf_def y_def x_def)
  from near have "real_of_int (16 * n - 1) \<le> roundDouble y" "roundDouble y < real_of_int (16 * n + 1)"
    by (simp_all only: of_int_mult of_int_numeral of_int_diff of_int_add of_int_1; linarith)+
  then have "16 * n - 1 \<le> \<lfloor>roundDouble y\<rfloor>" "\<lfloor>roundDouble y\<rfloor> < 16 * n + 1"
    by (simp_all only: le_floor_iff floor_less_iff)
  then show ?thesis unfolding t by simp
qed

subsection \<open>The wait\<close>

lemma pollAt_fields:
  "loopClock (pollAt t st) = t" "windowClock (pollAt t st) = t" "seen (pollAt t st) = st"
  by (simp_all add: pollAt_def)

text \<open>
  The wait ends within the polls given when the loop condition of the last of them reads
  600 ms or more after the start; with a sleep of 50 ms or more between two polls, twelve
  sleeps do.
\<close>

lemma syncWait_finishes:
  "600 \<le> loopClock (last (p # later)) - startSync \<Longrightarrow> syncWait cfg startSync p later \<noteq> None"
proof (induction later arbitrary: p)
  case Nil
  then show ?case by simp
next
  case (Cons nxt later)
  from Cons.prems have "600 \<le> loopClock (last (nxt # later)) - startSync" by simp
  then have "syncWait cfg startSync nxt later \<noteq> None" by (rule Cons.IH)
  then show ?case by (simp del: last.simps)
qed

text \<open>It stops in the state of one of the polls given, after as many sleeps as its position.\<close>

lemma syncWait_sleeps:
  "syncWait cfg startSync p later = Some (st, n)
   \<Longrightarrow> n \<le> length later \<and> st = seen ((p # later) ! n)"
proof (induction later arbitrary: p n)
  case Nil
  then show ?case by (auto split: if_splits)
next
  case (Cons nxt later)
  then show ?case by (auto split: if_splits)
qed

lemma quiet_no_break:
  "\<not> triggerAfterSpeechStart quiet" "\<not> windowClosed cfg now quiet"
  by (simp_all add: triggerAfterSpeechStart_def windowClosed_def truthy_def quiet_fields)

lemma quiet_wait: "syncWait cfg 5000 (pollAt 5000 quiet) quietPolls = Some (quiet, 12)"
  by (simp add: quietPolls_def quiet_no_break pollAt_fields)

subsection \<open>Finding a wake word\<close>

text \<open>
  \<open>indexOf\<close> finds a word exactly when it is a contiguous part of the text, and then at
  its first occurrence; the loop over the list yields the first word that is found.
\<close>

lemma indexOf_None_iff: "indexOf s w = None \<longleftrightarrow> \<not> sublist w s"
  by (induction s) (auto simp: sublist_Cons_right)





lemma firstOccurrence_unique:
  "firstOccurrence s w i \<Longrightarrow> firstOccurrence s w j \<Longrightarrow> i = j"
  unfolding firstOccurrence_def by (metis lessThan_iff linorder_neqE_nat)

lemma sublist_iff_indexOf: "sublist w s \<longleftrightarrow> indexOf s w \<noteq> None"
  by (simp add: indexOf_None_iff)

lemma findWakeWord_None_iff:
  "findWakeWord js lower ws = None \<longleftrightarrow> (\<forall>w \<in> set ws. \<not> sublist (toLowerCase js w) lower)"
  by (induction ws) (auto simp: sublist_iff_indexOf split: option.splits)


lemma accepted_parse:
  "accepted (snd (parse js cfg raw viaSound st))
     \<longleftrightarrow> viaSound \<or> findWakeWord js (toLowerCase js raw) (wakewords cfg) \<noteq> None"
  by (simp add: parse_def Let_def)

text \<open>
  A wake word beyond ASCII: with the wake word \<open>caf\<close> U+00E9, the text \<open>CAF\<close> U+00C9
  \<open>lights on\<close> is accepted through the text wake word on a platform that lower-cases
  U+00C9, and the command is \<open>LIGHTS ON\<close>.
\<close>

lemma accented_wake_word:
  "parse accentCase cafe (lit ''CAF'' @ [201] @ lit '' lights on'') False initial
     = (initial\<lparr> wakeSoundDetectedTime := None \<rparr>,
        [Result (lit ''LIGHTS ON'') (lit ''CAF'' @ [201] @ lit '' lights on'') False])"
  "parse accentCase cafe (lit ''CAF'' @ [201] @ lit '' lights on'') True initial
     = (initial\<lparr> wakeSoundDetectedTime := None \<rparr>,
        [Result (lit ''LIGHTS ON'') (lit ''CAF'' @ [201] @ lit '' lights on'') True])"
  by (simp_all add: string_eval cafe_fields)

text \<open>
  A wake word whose lower-cased form is longer: line 255 skips \<open>word.length\<close>, one code
  unit, and the second code unit of the lower-cased word, U+0307, stays in the command.
\<close>

lemma lengthening_wake_word:
  "parse dottedCase dotted ([304] @ lit '' go'') False initial
     = (initial\<lparr> wakeSoundDetectedTime := None \<rparr>,
        [Result ([775] @ lit '' GO'') ([304] @ lit '' go'') False])"
  by (simp add: string_eval dottedCase_fields dotted_fields)

text \<open>
  The examples with ASCII texts do not depend on the platform beyond what it does to the
  strings at hand: any platform that maps them as JavaScript does gives the same results.
\<close>

lemma capital_wake_word_on_any_platform:
  assumes "toLowerCase js (lit ''computer hi'') = lit ''computer hi''"
      and "toLowerCase js (lit ''Computer'') = lit ''computer''"
      and "toUpperCase js (lit ''hi'') = lit ''HI''"
  shows "parse js capitalised (lit ''computer hi'') False st
           = (st\<lparr> wakeSoundDetectedTime := None \<rparr>,
              [Result (lit ''HI'') (lit ''computer hi'') False])"
proof -
  have "findWakeWord js (lit ''computer hi'') (wakewords capitalised) = Some (lit ''Computer'', 0)"
    by (simp add: capitalised_fields assms(2)) (simp add: lit_def)
  moreover have "cleanupText (trim (substring (lit ''computer hi'') (0 + length (lit ''Computer''))))
      = lit ''hi''"
    by (simp add: string_eval)
  ultimately show ?thesis
    by (simp add: parse_def command_def Let_def assms capitalised_fields)
qed

lemma replaced_comma_on_any_platform:
  assumes "toLowerCase js (lit ''computer a,b'') = lit ''computer a,b''"
      and "toLowerCase js (lit ''computer'') = lit ''computer''"
      and "toUpperCase js (lit ''a b'') = lit ''A B''"
  shows "parse js computerJarvis (lit ''computer a,b'') False st
           = (st\<lparr> wakeSoundDetectedTime := None \<rparr>,
              [Result (lit ''A B'') (lit ''computer a,b'') False])"
proof -
  have "findWakeWord js (lit ''computer a,b'') (wakewords computerJarvis)
      = Some (lit ''computer'', 0)"
    by (simp add: computerJarvis_fields assms(2)) (simp add: lit_def)
  moreover have "cleanupText (trim (substring (lit ''computer a,b'') (0 + length (lit ''computer''))))
      = lit ''a b''"
    by (simp add: string_eval)
  ultimately show ?thesis
    by (simp add: parse_def command_def Let_def assms computerJarvis_fields)
qed

text \<open>A no-break space (U+00A0) is white space: \<open>trim\<close> removes it.\<close>

lemma trim_no_break_space: "trim ([160] @ lit ''lights on '' @ [160]) = lit ''lights on''"
  by (simp add: string_eval)

subsection \<open>The cleanup\<close>

lemma isSpace_space: "isSpace 32"
  by (simp add: isSpace_def)

lemma isKept_space: "isKept 32"
  by (simp add: isKept_def isSpace_space)

text \<open>
  Collapsing leaves the visible characters as they are, in their order; the white space
  left is single spaces, never two in a row.
\<close>

lemma collapseSpaces_spaces:
  "c \<in> set (collapseSpaces s) \<Longrightarrow> isSpace c \<Longrightarrow> c = 32"
  by (induction s rule: collapseSpaces.induct) (auto split: if_splits)

lemma collapseSpaces_visible:
  "filter (\<lambda>c. \<not> isSpace c) (collapseSpaces s) = filter (\<lambda>c. \<not> isSpace c) s"
proof (induction s rule: collapseSpaces.induct)
  case 1
  show ?case by simp
next
  case (2 c cs)
  have "filter (\<lambda>c. \<not> isSpace c) (dropWhile isSpace cs) = filter (\<lambda>c. \<not> isSpace c) cs"
    by (induction cs) simp_all
  with 2 show ?case by (simp add: isSpace_space)
qed

lemma collapseSpaces_no_run:
  "collapseSpaces s = xs @ a # b # ys \<Longrightarrow> \<not> (isSpace a \<and> isSpace b)"
proof (induction s arbitrary: xs rule: collapseSpaces.induct)
  case 1
  then show ?case by simp
next
  case (2 c cs)
  show ?case
  proof (cases "isSpace c")
    case True
    with 2(3) have eq: "32 # collapseSpaces (dropWhile isSpace cs) = xs @ a # b # ys" by simp
    show ?thesis
    proof (cases xs)
      case Nil
      with eq have b: "collapseSpaces (dropWhile isSpace cs) = b # ys" by simp
      have "\<not> isSpace b"
      proof (cases "dropWhile isSpace cs")
        case Nil
        with b show ?thesis by simp
      next
        case (Cons d ds)
        then have "\<not> isSpace d" by (metis hd_dropWhile list.sel(1) list.distinct(1))
        with b Cons show ?thesis by simp
      qed
      then show ?thesis by simp
    next
      case (Cons x xs')
      with eq have "collapseSpaces (dropWhile isSpace cs) = xs' @ a # b # ys" by simp
      with 2(1) [OF True] show ?thesis by blast
    qed
  next
    case False
    with 2(3) have eq: "c # collapseSpaces cs = xs @ a # b # ys" by simp
    show ?thesis
    proof (cases xs)
      case Nil
      with eq False show ?thesis by simp
    next
      case (Cons x xs')
      with eq have "collapseSpaces cs = xs' @ a # b # ys" by simp
      with 2(2) [OF False] show ?thesis by blast
    qed
  qed
qed

text \<open>A trimmed text neither begins nor ends with white space.\<close>

lemma trim_ends:
  "trim s = [] \<or> (\<not> isSpace (hd (trim s)) \<and> \<not> isSpace (last (trim s)))"
proof (cases "trim s = []")
  case True
  then show ?thesis by simp
next
  case False
  define t where "t = dropWhile isSpace (rev (dropWhile isSpace s))"
  from False have t: "t \<noteq> []" by (simp add: trim_def t_def)
  then have first: "\<not> isSpace (hd t)" unfolding t_def by (rule hd_dropWhile)
  have tr: "trim s = rev t" by (simp add: trim_def t_def)
  from t first have l: "\<not> isSpace (last (trim s))" by (simp add: tr last_rev)
  obtain pre where pre: "rev (dropWhile isSpace s) = pre @ t"
    unfolding t_def by (metis takeWhile_dropWhile_id)
  then have "dropWhile isSpace s = rev t @ rev pre" by (metis rev_append rev_rev_ident)
  with t have "hd (dropWhile isSpace s) = hd (rev t)" by simp
  moreover from t pre have "dropWhile isSpace s \<noteq> []"
    by (metis Nil_is_append_conv rev_is_Nil_conv)
  then have "\<not> isSpace (hd (dropWhile isSpace s))" by (rule hd_dropWhile)
  ultimately have "\<not> isSpace (hd (trim s))" by (simp add: tr)
  with l False show ?thesis by simp
qed

text \<open>Only characters of the kept class are left by the cleanup.\<close>

lemma cleanupText_kept: "c \<in> set (cleanupText s) \<Longrightarrow> isKept c"
proof -
  assume c: "c \<in> set (cleanupText s)"
  have a: "set (trim t) \<subseteq> set t" for t
  proof
    fix x assume "x \<in> set (trim t)"
    then have "x \<in> set (dropWhile isSpace (rev (dropWhile isSpace t)))"
      by (simp add: trim_def)
    then have "x \<in> set (rev (dropWhile isSpace t))" by (rule set_dropWhileD)
    then have "x \<in> set (dropWhile isSpace t)" by simp
    then show "x \<in> set t" by (rule set_dropWhileD)
  qed
  have b: "x \<in> set (collapseSpaces t) \<Longrightarrow> x = 32 \<or> x \<in> set t" for x t
    by (induction t rule: collapseSpaces.induct) (auto split: if_splits dest: set_dropWhileD)
  from c a have "c \<in> set (collapseSpaces (replaceOthers s))" unfolding cleanupText_def by blast
  with b have "c = 32 \<or> c \<in> set (replaceOthers s)" by blast
  then show ?thesis by (auto simp add: replaceOthers_def isKept_space)
qed

subsection \<open>The claims\<close>

text \<open>
  C1, as amended. For a segment of at least 2000 samples: when the wait ends in a state
  with a wake trigger (a timestamp \<open>t\<close> that is not 0) and the clock then reads a time
  \<open>now\<close> with \<open>now - t < wakesoundDelay\<close>, the decision is to transcribe with
  \<open>viaSound = true\<close>. The audio passed on is the segment without its first
  \<open>trimSamplesOf (t - speechStartTime)\<close> samples when the trigger is not before the start
  of the speech and the segment is longer than that, and the whole segment otherwise.
  \<open>trimSamplesOf offsetMs\<close> is \<open>Math.floor((offsetMs / 1000) * 16000)\<close> in double
  arithmetic, which is \<open>16 * offsetMs\<close> or one less; so a trigger after which more than
  \<open>16 * offsetMs\<close> samples of the segment are left is always trimmed away.
\<close>

theorem in_session_trims:
  assumes "2000 \<le> length audio"
      and "syncWait cfg startSync p later = Some (st, sleeps)"
      and "wakeSoundDetectedTime st = Some t" and "t \<noteq> 0"
      and "real_of_int (now - t) < wakesoundDelay cfg"
  shows "handleSpeech cfg audio startSync p later now =
           Some (Transcribe
                   (if speechStartTime st \<le> t
                       \<and> trimSamplesOf (t - speechStartTime st) < int (length audio)
                    then drop (nat (trimSamplesOf (t - speechStartTime st))) audio
                    else audio)
                   True, sleeps)
         \<and> (speechStartTime st \<le> t \<and> t - speechStartTime st < 2 ^ 40
              \<longrightarrow> 16 * (t - speechStartTime st) - 1 \<le> trimSamplesOf (t - speechStartTime st)
                  \<and> trimSamplesOf (t - speechStartTime st) \<le> 16 * (t - speechStartTime st))
         \<and> (speechStartTime st \<le> t \<and> t - speechStartTime st < 2 ^ 40
              \<and> 16 * (t - speechStartTime st) < int (length audio)
              \<longrightarrow> handleSpeech cfg audio startSync p later now =
                    Some (Transcribe (drop (nat (trimSamplesOf (t - speechStartTime st))) audio)
                            True, sleeps))"
proof -
  have main: "handleSpeech cfg audio startSync p later now =
           Some (Transcribe
                   (if speechStartTime st \<le> t
                       \<and> trimSamplesOf (t - speechStartTime st) < int (length audio)
                    then drop (nat (trimSamplesOf (t - speechStartTime st))) audio
                    else audio)
                   True, sleeps)"
    using assms
    by (simp add: handleSpeech_def decide_def inSession_def timeSinceWakeSound_def truthy_def
        numberOf_def audioToProcess_def Let_def)
  have bounds: "16 * (t - speechStartTime st) - 1 \<le> trimSamplesOf (t - speechStartTime st)
      \<and> trimSamplesOf (t - speechStartTime st) \<le> 16 * (t - speechStartTime st)"
    if "speechStartTime st \<le> t" "t - speechStartTime st < 2 ^ 40"
    using that by (intro trimSamplesOf_bounds) simp_all
  have "handleSpeech cfg audio startSync p later now =
          Some (Transcribe (drop (nat (trimSamplesOf (t - speechStartTime st))) audio) True, sleeps)"
    if "speechStartTime st \<le> t" "t - speechStartTime st < 2 ^ 40"
       "16 * (t - speechStartTime st) < int (length audio)"
  proof -
    from bounds [OF that(1,2)] that(3)
    have "trimSamplesOf (t - speechStartTime st) < int (length audio)" by linarith
    with main that(1) show ?thesis by simp
  qed
  with main bounds show ?thesis by blast
qed

text \<open>
  The scenario of the specification: a window of 500 ms, the trigger at 1000 ms, the
  speech begun at 900 ms, the decision at 1100 ms; 1600 samples are removed.
\<close>

theorem in_session_trims_witness:
  "handleSpeech window500 shortest 1100 (pollAt 1100 heardAt1000) [] 1100
     = Some (Transcribe (drop 1600 shortest) True, 0)"
proof -
  have "syncWait window500 1100 (pollAt 1100 heardAt1000) [] = Some (heardAt1000, 0)"
    by (simp add: heard_trigger pollAt_fields)
  moreover have "real_of_int (1100 - 1000) < wakesoundDelay window500"
    by (simp add: window500_fields)
  ultimately have "handleSpeech window500 shortest 1100 (pollAt 1100 heardAt1000) [] 1100 =
      Some (Transcribe
              (if speechStartTime heardAt1000 \<le> 1000
                  \<and> trimSamplesOf (1000 - speechStartTime heardAt1000) < int (length shortest)
               then drop (nat (trimSamplesOf (1000 - speechStartTime heardAt1000))) shortest
               else shortest)
              True, 0)"
    using in_session_trims
            [of shortest window500 1100 "pollAt 1100 heardAt1000" "[]" heardAt1000 0 1000 1100]
    by (simp add: heardAt1000_fields example_lengths)
  then show ?thesis by (simp add: heardAt1000_fields example_lengths trim_100)
qed

text \<open>
  C1 as stated fails: a trigger at 1500 ms inside a segment of one second begun at
  1000 ms, with a window of 100 ms, and the decision taken at 2100 ms. The trigger is 600
  ms old, the segment is not in session and goes to transcription whole, with
  \<open>viaSound = false\<close>.
\<close>

theorem trigger_in_segment_counterexample:
  "2000 \<le> length oneSecond
   \<and> wakeSoundDetectedTime heardAt1500 = Some 1500
   \<and> speechStartTime heardAt1500 \<le> 1500
   \<and> 1500 \<le> speechStartTime heardAt1500 + int (length oneSecond) div 16
   \<and> 0 < wakesoundDelay window100
   \<and> handleSpeech window100 oneSecond 2100 (pollAt 2100 heardAt1500) [] 2100
       = Some (Transcribe oneSecond False, 0)"
  by (simp add: window100_fields handleSpeech_def decide_def inSession_def timeSinceWakeSound_def
      truthy_def numberOf_def heard_trigger heardAt1500_fields example_lengths pollAt_fields)

text \<open>
  C2, as amended. The wake trigger is changed by the listener when a score qualifies
  (it is overwritten) and by \<open>_parse\<close> when a command is accepted (its timestamp is
  cleared), whether the command was accepted through the sound or through a text wake
  word. Nothing else changes it: a score that does not qualify, the start of speech, a
  dropped segment, a failed or empty transcription and a rejected extraction leave it as
  it is.
\<close>

theorem trigger_frame:
  "(snd (onWakeSoundResult cfg classLabels now scores st) = []
      \<and> fst (onWakeSoundResult cfg classLabels now scores st) = st
    \<or> (\<exists>score. arrayAt scores (wakesoundIndex cfg) = Some score
          \<and> wakesoundThreshold cfg < score \<and> score < 1.62
          \<and> fst (onWakeSoundResult cfg classLabels now scores st)
              = st\<lparr> wakeSoundDetectedTime := Some now, lastWakeSoundScore := score \<rparr>))
   \<and> wakeSoundDetectedTime (fst (onSpeechStart now st)) = wakeSoundDetectedTime st
   \<and> lastWakeSoundScore (fst (onSpeechStart now st)) = lastWakeSoundScore st
   \<and> fst (carryOut js cfg asr (Discard reason) st) = st
   \<and> fst (transcribeAndParse js cfg (AsrThrows message) viaSound st) = st
   \<and> (accepted (snd (transcribeAndParse js cfg outcome viaSound st))
       \<or> fst (transcribeAndParse js cfg outcome viaSound st) = st)
   \<and> (accepted (snd (parse js cfg raw viaSound st))
        \<longleftrightarrow> viaSound \<or> (\<exists>w \<in> set (wakewords cfg). sublist (toLowerCase js w) (toLowerCase js raw)))
   \<and> fst (parse js cfg raw viaSound st)
       = (if accepted (snd (parse js cfg raw viaSound st))
          then st\<lparr> wakeSoundDetectedTime := None \<rparr> else st)"
proof -
  have listener: "snd (onWakeSoundResult cfg classLabels now scores st) = []
      \<and> fst (onWakeSoundResult cfg classLabels now scores st) = st
    \<or> (\<exists>score. arrayAt scores (wakesoundIndex cfg) = Some score
          \<and> wakesoundThreshold cfg < score \<and> score < 1.62
          \<and> fst (onWakeSoundResult cfg classLabels now scores st)
              = st\<lparr> wakeSoundDetectedTime := Some now, lastWakeSoundScore := score \<rparr>)"
    by (cases "arrayAt scores (wakesoundIndex cfg)") (simp_all add: onWakeSoundResult_def)
  have start: "wakeSoundDetectedTime (fst (onSpeechStart now st)) = wakeSoundDetectedTime st"
    "lastWakeSoundScore (fst (onSpeechStart now st)) = lastWakeSoundScore st"
    by (simp_all add: onSpeechStart_def)
  have drop: "fst (carryOut js cfg asr (Discard reason) st) = st"
    by (simp add: carryOut_def)
  have throw: "fst (transcribeAndParse js cfg (AsrThrows message) viaSound st) = st"
    by (simp add: transcribeAndParse_def)
  have p: "fst (parse js cfg s v st)
       = (if accepted (snd (parse js cfg s v st))
          then st\<lparr> wakeSoundDetectedTime := None \<rparr> else st)" for s v
    by (simp add: parse_def Let_def)
  have t: "accepted (snd (transcribeAndParse js cfg outcome viaSound st))
       \<or> fst (transcribeAndParse js cfg outcome viaSound st) = st"
    using p by (simp add: transcribeAndParse_def split: asr_outcome.split option.split)
  have a: "accepted (snd (parse js cfg raw viaSound st))
        \<longleftrightarrow> viaSound \<or> (\<exists>w \<in> set (wakewords cfg). sublist (toLowerCase js w) (toLowerCase js raw))"
    using findWakeWord_None_iff [of js "toLowerCase js raw" "wakewords cfg"]
    by (simp add: accepted_parse)
  from listener start drop throw t a p [of raw viaSound] show ?thesis by blast
qed

text \<open>
  C2 as stated fails: with a trigger recorded at 1000 ms, the text \<open>computer lights on\<close>
  is accepted through the text wake word (\<open>viaSound = false\<close>) and the timestamp of the
  trigger is cleared by the extraction.
\<close>

theorem text_wake_word_clears_trigger_counterexample:
  "wakeSoundDetectedTime heardAt1000 = Some 1000
   \<and> parse asciiCase computerJarvis (lit ''computer lights on'') False heardAt1000
       = (heardAt1000\<lparr> wakeSoundDetectedTime := None \<rparr>,
          [Result (lit ''LIGHTS ON'') (lit ''computer lights on'') False])
   \<and> wakeSoundDetectedTime (fst (parse asciiCase computerJarvis (lit ''computer lights on'') False heardAt1000))
       = None"
  by (simp add: string_eval sublist_code cleanupAsSpecified_def isKeptAsSpecified_def
      computerJarvis_fields readmeConfig_fields capitalised_fields heardAt1000_fields)

text \<open>
  C3, as amended. With \<open>cleanup\<close> enabled, the text of an accepted result is the
  command in which every character other than an ASCII letter, a digit, the underscore,
  white space and \<open>+ - * / ( ) .\<close> is replaced by a space, then every run of white space
  is collapsed to one space, then the text is trimmed and upper-cased; the field
  \<open>original\<close> is the raw transcription. This holds for every text and whatever the case
  mappings of the platform are.
\<close>

theorem accepted_text_is_cleaned:
  assumes "cleanup cfg" and "accepted (snd (parse js cfg raw viaSound st))"
  shows "snd (parse js cfg raw viaSound st)
           = [Result (toUpperCase js (trim (collapseSpaces
                        (map (\<lambda>c. if isWord c \<or> isSpace c \<or> c \<in> set (lit ''+-*/().'') then c
                                   else 32)
                           (command js cfg (toLowerCase js raw))))))
                     raw viaSound]"
  using assms
  by (simp add: parse_def Let_def cleanupText_def replaceOthers_def isKept_def split: if_splits)

theorem accepted_text_is_cleaned_witness:
  "parse asciiCase readmeConfig (lit ''Hey Akari, what's 2+2?'') False initial
     = (initial\<lparr> wakeSoundDetectedTime := None \<rparr>,
        [Result (lit ''WHAT S 2+2'') (lit ''Hey Akari, what's 2+2?'') False])"
proof -
  have acc: "accepted (snd (parse asciiCase readmeConfig (lit ''Hey Akari, what's 2+2?'') False initial))"
    by (simp add: string_eval sublist_code cleanupAsSpecified_def isKeptAsSpecified_def
        computerJarvis_fields readmeConfig_fields capitalised_fields heardAt1000_fields)
  have cleaned: "toUpperCase asciiCase (trim (collapseSpaces
                        (map (\<lambda>c. if isWord c \<or> isSpace c \<or> c \<in> set (lit ''+-*/().'') then c
                                   else 32)
                           (command asciiCase readmeConfig (toLowerCase asciiCase (lit ''Hey Akari, what's 2+2?''))))))
              = lit ''WHAT S 2+2''"
    by (simp add: string_eval sublist_code cleanupAsSpecified_def isKeptAsSpecified_def
        computerJarvis_fields readmeConfig_fields capitalised_fields heardAt1000_fields)
  have state: "fst (parse asciiCase readmeConfig (lit ''Hey Akari, what's 2+2?'') False initial)
                 = initial\<lparr> wakeSoundDetectedTime := None \<rparr>"
    by (simp add: string_eval sublist_code cleanupAsSpecified_def isKeptAsSpecified_def
        computerJarvis_fields readmeConfig_fields capitalised_fields heardAt1000_fields initial_def)
  from accepted_text_is_cleaned
         [of readmeConfig asciiCase "lit ''Hey Akari, what's 2+2?''" False initial] acc
  have "snd (parse asciiCase readmeConfig (lit ''Hey Akari, what's 2+2?'') False initial)
          = [Result (lit ''WHAT S 2+2'') (lit ''Hey Akari, what's 2+2?'') False]"
    by (simp only: cleaned readmeConfig_fields)
  with state show ?thesis by (simp add: prod_eq_iff)
qed

text \<open>
  C3 as stated fails: the command \<open>a,b\<close> becomes \<open>A B\<close>, since the comma is replaced by
  a space; stripping it, as the claim has it, gives \<open>AB\<close>.
\<close>

theorem stripped_characters_counterexample:
  "cleanup computerJarvis
   \<and> parse asciiCase computerJarvis (lit ''computer a,b'') False initial
       = (initial\<lparr> wakeSoundDetectedTime := None \<rparr>, [Result (lit ''A B'') (lit ''computer a,b'') False])
   \<and> command asciiCase computerJarvis (toLowerCase asciiCase (lit ''computer a,b'')) = lit ''a,b''
   \<and> toUpperCase asciiCase (cleanupAsSpecified (lit ''a,b'')) = lit ''AB''"
  by (simp add: string_eval sublist_code cleanupAsSpecified_def isKeptAsSpecified_def
      computerJarvis_fields readmeConfig_fields capitalised_fields heardAt1000_fields)




text \<open>
  C5, as amended. With \<open>wakesoundDelay = 0\<close>, when the wait ends and the clock then
  reads a time \<open>now\<close> that is not before the timestamp of the trigger (if there is one),
  the segment is not in session: a segment of fewer than 2000 samples is dropped as too
  short, and any other is dropped when \<open>requireWakeSound\<close> is set and transcribed whole
  with \<open>viaSound = false\<close> when it is not.
\<close>

theorem zero_delay_never_in_session:
  assumes "wakesoundDelay cfg = 0"
      and "syncWait cfg startSync p later = Some (st, sleeps)"
      and "\<forall>t. wakeSoundDetectedTime st = Some t \<longrightarrow> t \<le> now"
  shows "\<not> inSession cfg now st
         \<and> handleSpeech cfg audio startSync p later now =
             (if length audio < 2000 then Some (Discard (lit ''(Audio Too Short)''), 0)
              else Some (if requireWakeSound cfg then Discard (lit ''(Waiting for Wake Sound)'')
                         else Transcribe audio False, sleeps))"
  using assms
  by (auto simp add: handleSpeech_def decide_def inSession_def timeSinceWakeSound_def truthy_def
      numberOf_def split: option.splits)

theorem zero_delay_never_in_session_witness:
  "handleSpeech readmeConfig oneSecond 2100 (pollAt 2100 heardAt1500) [] 2100
     = Some (Transcribe oneSecond False, 0)
   \<and> \<not> inSession readmeConfig 2100 heardAt1500"
  using zero_delay_never_in_session
          [of readmeConfig 2100 "pollAt 2100 heardAt1500" "[]" heardAt1500 0 2100 oneSecond]
  by (simp add: readmeConfig_fields heard_trigger heardAt1500_fields example_lengths
      pollAt_fields)

text \<open>
  C5 as stated fails for a classification time before the trigger's timestamp: with the
  clock at 1000 ms and a trigger stamped 1005 ms, the time since the trigger is -5, which
  is below the delay 0, and the segment is transcribed with \<open>viaSound = true\<close>.
\<close>

theorem zero_delay_counterexample:
  "wakesoundDelay readmeConfig = 0
   \<and> handleSpeech readmeConfig shortest 1000 (pollAt 1000 heardAt1005) [] 1000
       = Some (Transcribe (drop 1680 shortest) True, 0)"
  by (simp add: readmeConfig_fields handleSpeech_def decide_def inSession_def
      timeSinceWakeSound_def truthy_def numberOf_def heard_trigger audioToProcess_def trim_105
      example_lengths heardAt1005_fields pollAt_fields)

text \<open>
  C6. For a segment of at least 2000 samples, when the wait ends in a state with no
  wake trigger, the decision is to transcribe the whole segment with \<open>viaSound = false\<close>
  if \<open>requireWakeSound\<close> is not set, and to drop the segment, waiting for a wake sound,
  if it is.
\<close>

theorem no_trigger_decision:
  assumes "2000 \<le> length audio"
      and "syncWait cfg startSync p later = Some (st, sleeps)"
      and "wakeSoundDetectedTime st = None"
  shows "handleSpeech cfg audio startSync p later now =
           Some (if requireWakeSound cfg then Discard (lit ''(Waiting for Wake Sound)'')
                 else Transcribe audio False, sleeps)"
  using assms
  by (simp add: handleSpeech_def decide_def inSession_def timeSinceWakeSound_def truthy_def)

text \<open>A full wait of twelve sleeps in which no wake sound is heard, under both settings.\<close>

theorem no_trigger_decision_witness:
  "handleSpeech readmeConfig shortest 5000 (pollAt 5000 quiet) quietPolls 5600
     = Some (Transcribe shortest False, 12)
   \<and> handleSpeech window500 shortest 5000 (pollAt 5000 quiet) quietPolls 5600
       = Some (Discard (lit ''(Waiting for Wake Sound)''), 12)"
  using no_trigger_decision
          [of shortest readmeConfig 5000 "pollAt 5000 quiet" quietPolls quiet 12 5600]
        no_trigger_decision
          [of shortest window500 5000 "pollAt 5000 quiet" quietPolls quiet 12 5600]
  by (simp add: quiet_wait readmeConfig_fields window500_fields example_lengths quiet_fields)

text \<open>
  C7. For every score the classifier delivers for the watched class, the listener
  records the trigger \<open>{timestamp: now, score}\<close> over the previous one and dispatches a
  \<open>wakesound\<close> event with the score, the class label and the timestamp exactly when the
  score is above \<open>wakesoundThreshold\<close> and below 1.62; for any other score the state is
  unchanged and nothing is dispatched.
\<close>

theorem wake_sound_listener:
  assumes "arrayAt scores (wakesoundIndex cfg) = Some score"
  shows "onWakeSoundResult cfg classLabels now scores st =
           (if wakesoundThreshold cfg < score \<and> score < 1.62
            then (st\<lparr> wakeSoundDetectedTime := Some now, lastWakeSoundScore := score \<rparr>,
                  [WakeSound score (arrayAt classLabels (wakesoundIndex cfg)) now])
            else (st, []))"
  using assms by (simp add: onWakeSoundResult_def)

text \<open>A score of 1.9 changes nothing; a score of 0.9 is recorded and announced.\<close>

theorem wake_sound_listener_witness:
  "onWakeSoundResult readmeConfig [lit ''noise'', lit ''clap'', lit ''whistle''] 1000 [0.1, 0.05, 1.9] initial
     = (initial, [])
   \<and> onWakeSoundResult readmeConfig [lit ''noise'', lit ''clap'', lit ''whistle''] 1000 [0.05, 0.05, 0.9] initial
     = (initial\<lparr> wakeSoundDetectedTime := Some 1000, lastWakeSoundScore := 0.9 \<rparr>,
        [WakeSound 0.9 (Some (lit ''whistle'')) 1000])"
  using wake_sound_listener [of "[0.1, 0.05, 1.9]" readmeConfig "1.9"
          "[lit ''noise'', lit ''clap'', lit ''whistle'']" 1000 initial]
        wake_sound_listener [of "[0.05, 0.05, 0.9]" readmeConfig "0.9"
          "[lit ''noise'', lit ''clap'', lit ''whistle'']" 1000 initial]
  by (simp add: readmeConfig_fields arrayAt_def)

text \<open>
  C8. A segment of fewer than 2000 samples is dropped as too short at once: whatever
  the configuration, the state, the clock and the later polls, \<open>_handleSpeech\<close> takes no
  sleep, and the only event is \<open>speechdiscarded\<close> with the detail \<open>(Audio Too Short)\<close>.
\<close>

theorem short_segment_discarded:
  assumes "length audio < 2000"
  shows "handleSpeech cfg audio startSync p later now = Some (Discard (lit ''(Audio Too Short)''), 0)
         \<and> carryOut js cfg asr (Discard (lit ''(Audio Too Short)'')) st
             = (st, [SpeechDiscarded (lit ''(Audio Too Short)'')])"
  using assms by (simp add: handleSpeech_def carryOut_def)

theorem short_segment_discarded_witness:
  "handleSpeech window500 (replicate 1999 0) 1100 (pollAt 1100 heardAt1000) quietPolls 1100
     = Some (Discard (lit ''(Audio Too Short)''), 0)
   \<and> carryOut asciiCase window500 (\<lambda>a. AsrReturns (Some (lit ''hello''))) (Discard (lit ''(Audio Too Short)'')) heardAt1000
       = (heardAt1000, [SpeechDiscarded (lit ''(Audio Too Short)'')])"
  using short_segment_discarded
          [of "replicate 1999 0" window500 1100 "pollAt 1100 heardAt1000" quietPolls 1100 asciiCase
              "\<lambda>a. AsrReturns (Some (lit ''hello''))" heardAt1000]
  by simp

text \<open>
  C9. When the ASR call throws, the only event is \<open>error\<close> with the message, no command
  is extracted and the state is unchanged; when it returns no text or the empty text, the
  only event is \<open>speechdiscarded\<close> with the detail \<open>(Empty Recognition)\<close>, and the state
  is unchanged as well. In both cases the segments that follow are processed as they
  would have been from the state before.
\<close>

theorem asr_failure_is_local:
  "transcribeAndParse js cfg (AsrThrows message) viaSound st
     = (st, [Error (lit ''ASR Fail: '' @ message)])
   \<and> transcribeAndParse js cfg (AsrReturns None) viaSound st
     = (st, [SpeechDiscarded (lit ''(Empty Recognition)'')])
   \<and> transcribeAndParse js cfg (AsrReturns (Some [])) viaSound st
     = (st, [SpeechDiscarded (lit ''(Empty Recognition)'')])
   \<and> transcribeAll js cfg ((AsrThrows message, viaSound) # jobs) st
     = (fst (transcribeAll js cfg jobs st),
        Error (lit ''ASR Fail: '' @ message) # snd (transcribeAll js cfg jobs st))
   \<and> transcribeAll js cfg ((AsrReturns None, viaSound) # jobs) st
     = (fst (transcribeAll js cfg jobs st),
        SpeechDiscarded (lit ''(Empty Recognition)'') # snd (transcribeAll js cfg jobs st))
   \<and> transcribeAll js cfg ((AsrReturns (Some []), viaSound) # jobs) st
     = (fst (transcribeAll js cfg jobs st),
        SpeechDiscarded (lit ''(Empty Recognition)'') # snd (transcribeAll js cfg jobs st))"
  by (simp add: transcribeAndParse_def split: prod.split)

end
